theory Spec2Isabelle
  imports Main "HOL-Library.Word" "HOL-Library.AList"
begin

section \<open>The store client of \<^verbatim>\<open>redis_client.h\<close>\<close>

text \<open>
  \<^verbatim>\<open>RedisClient\<close> is a facade over two libraries: hiredis (the connection, the
  commands and their replies) and nlohmann::json (the documents and their
  serialisation). Both are outside the repository, so the client's methods take them as
  parameters:
  \<^item> \<open>rc\<close> stands for \<^verbatim>\<open>redisCommand\<close>: given the context pointer, a command and the
    state of the world outside the client (connection, store, subscribers), it returns a
    reply, or \<open>None\<close> for the null pointer, and the next state of the world;
  \<^item> \<open>dump\<close> stands for \<^verbatim>\<open>json::dump()\<close> where it returns (it throws on a string that
    is not valid UTF-8, before the method has given any command to the transport);
  \<^item> \<open>now\<close> is the value \<^verbatim>\<open>std::time(nullptr)\<close> returns during the call.
  A method maps the client's fields and the world to its return value, the client's
  fields after the call and the world after the call. The lines written to
  \<^verbatim>\<open>std::cout\<close> and \<^verbatim>\<open>std::cerr\<close> are not modelled.

  The specification calls \<^verbatim>\<open>storeStockData\<close> storeQuote, \<^verbatim>\<open>storeTradingSignal\<close>
  storeSignal, \<^verbatim>\<open>getStockData\<close> getQuote, \<^verbatim>\<open>publishMarketUpdate\<close> publish and
  \<^verbatim>\<open>getAvailableSymbols\<close> listSymbols.
\<close>

subsection \<open>Documents, commands and replies\<close>

text \<open>A \<^verbatim>\<open>double\<close> is kept as its 64 bits; no arithmetic is done on it.\<close>

type_synonym double = "64 word"

datatype json =
    JNull
  | JBoolean bool
  | JInteger int
  | JFloat double
  | JString string
  | JArray "json list"
  | JObject "(string \<times> json) list"

text \<open>
  The six command lines the client formats. Every \<^verbatim>\<open>%s\<close> argument is one argument of
  the command, whatever it contains.
\<close>

datatype command =
    SET string string
  | LPUSH string string
  | LTRIM string int int
  | GET string
  | PUBLISH string string
  | KEYS string

text \<open>
  A \<^verbatim>\<open>redisReply\<close>: its \<^verbatim>\<open>type\<close> is the constructor, and the string carried by the
  string, status and error replies is the C string at \<^verbatim>\<open>reply->str\<close>, which is what
  \<^verbatim>\<open>std::string(reply->str)\<close> reads.
\<close>

datatype redisReply =
    REDIS_REPLY_STRING string
  | REDIS_REPLY_ARRAY "redisReply list"
  | REDIS_REPLY_INTEGER int
  | REDIS_REPLY_NIL
  | REDIS_REPLY_STATUS string
  | REDIS_REPLY_ERROR string

text \<open>\<^verbatim>\<open>s.c_str()\<close> read through \<^verbatim>\<open>%s\<close>: the bytes before the first NUL.\<close>

definition c_str :: "string \<Rightarrow> string" where
  "c_str s = takeWhile (\<lambda>ch. ch \<noteq> CHR 0x00) s"

subsection \<open>The client\<close>

text \<open>
  The members of the class. The member \<^verbatim>\<open>context\<close> is the field \<open>context_ptr\<close>, as
  \<open>context\<close> is a keyword of Isabelle; \<open>None\<close> is the null pointer.
\<close>

record 'h RedisClient =
  context_ptr :: "'h option"
  host :: string
  port :: int
  connected :: bool

type_synonym ('h, 'w) transport =
  "'h option \<Rightarrow> command \<Rightarrow> 'w \<Rightarrow> redisReply option \<times> 'w"

text \<open>
  \<^verbatim>\<open>connect\<close>. \<open>redisConnect\<close> returns the null pointer, or a context together with the
  value of its \<^verbatim>\<open>err\<close> field.
\<close>

definition connect ::
  "(string \<Rightarrow> int \<Rightarrow> 'w \<Rightarrow> ('h \<times> int) option \<times> 'w) \<Rightarrow> ('h \<Rightarrow> 'w \<Rightarrow> 'w) \<Rightarrow>
     'h RedisClient \<Rightarrow> 'w \<Rightarrow> bool \<times> 'h RedisClient \<times> 'w" where
  "connect redisConnect redisFree c w =
     (let (ctx, w1) = redisConnect (c_str (host c)) (port c) w in
      case ctx of
        None \<Rightarrow> (False, c\<lparr>context_ptr := None, connected := False\<rparr>, w1)
      | Some (h, err) \<Rightarrow>
          if err \<noteq> 0
          then (False, c\<lparr>context_ptr := None, connected := False\<rparr>, redisFree h w1)
          else (True, c\<lparr>context_ptr := Some h, connected := True\<rparr>, w1))"

text \<open>
  The constructor sets the host, the port and the flag and calls \<^verbatim>\<open>connect\<close>, which
  assigns the context before anything reads it. The destructor frees the context of a
  connected client.
\<close>

definition RedisClient_new ::
  "(string \<Rightarrow> int \<Rightarrow> 'w \<Rightarrow> ('h \<times> int) option \<times> 'w) \<Rightarrow> ('h \<Rightarrow> 'w \<Rightarrow> 'w) \<Rightarrow>
     string \<Rightarrow> int \<Rightarrow> 'w \<Rightarrow> 'h RedisClient \<times> 'w" where
  "RedisClient_new redisConnect redisFree redis_host redis_port w =
     snd (connect redisConnect redisFree
       \<lparr>context_ptr = None, host = redis_host, port = redis_port, connected = False\<rparr> w)"

definition RedisClient_delete :: "('h \<Rightarrow> 'w \<Rightarrow> 'w) \<Rightarrow> 'h RedisClient \<Rightarrow> 'w \<Rightarrow> 'w" where
  "RedisClient_delete redisFree c w =
     (case context_ptr c of
        Some h \<Rightarrow> if connected c then redisFree h w else w
      | None \<Rightarrow> w)"

definition isConnected :: "'h RedisClient \<Rightarrow> bool" where
  "isConnected c = connected c"

text \<open>The test \<^verbatim>\<open>reply->type == REDIS_REPLY_STATUS && std::string(reply->str) == "OK"\<close>.\<close>

definition status_is_OK :: "redisReply \<Rightarrow> bool" where
  "status_is_OK r = (case r of REDIS_REPLY_STATUS s \<Rightarrow> s = ''OK'' | _ \<Rightarrow> False)"

text \<open>The test \<^verbatim>\<open>reply->type == REDIS_REPLY_STATUS\<close>.\<close>

definition is_status :: "redisReply \<Rightarrow> bool" where
  "is_status r = (case r of REDIS_REPLY_STATUS s \<Rightarrow> True | _ \<Rightarrow> False)"

text \<open>The test \<^verbatim>\<open>reply->type == REDIS_REPLY_INTEGER\<close>.\<close>

definition is_integer :: "redisReply \<Rightarrow> bool" where
  "is_integer r = (case r of REDIS_REPLY_INTEGER n \<Rightarrow> True | _ \<Rightarrow> False)"

definition storeStockData ::
  "('h, 'w) transport \<Rightarrow> (json \<Rightarrow> string) \<Rightarrow> 'h RedisClient \<Rightarrow> string \<Rightarrow> json \<Rightarrow> 'w \<Rightarrow>
     bool \<times> 'h RedisClient \<times> 'w" where
  "storeStockData rc dump c symbol data w =
     (if \<not> connected c then (False, c, w)
      else
        let key = ''stock:current:'' @ symbol;
            json_str = dump data;
            (reply, w1) = rc (context_ptr c) (SET (c_str key) (c_str json_str)) w
        in case reply of
             None \<Rightarrow> (False, c, w1)
           | Some r \<Rightarrow>
               let success = status_is_OK r in
               if success
               then
                 let hist_key = ''stock:history:'' @ symbol;
                     (hist_reply, w2) =
                        rc (context_ptr c) (LPUSH (c_str hist_key) (c_str json_str)) w1;
                     (trim_reply, w3) = rc (context_ptr c) (LTRIM (c_str hist_key) 0 999) w2
                 in (success, c, w3)
               else (success, c, w1))"

text \<open>
  The document \<^verbatim>\<open>storeTradingSignal\<close> builds, in the order of its initializer list.
\<close>

definition signal_data :: "string \<Rightarrow> string \<Rightarrow> string \<Rightarrow> double \<Rightarrow> int \<Rightarrow> json" where
  "signal_data symbol signal reason confidence now =
     JObject [(''symbol'', JString symbol),
              (''signal'', JString signal),
              (''reason'', JString reason),
              (''confidence'', JFloat confidence),
              (''timestamp'', JInteger now),
              (''source'', JString ''cpp_engine'')]"

definition storeTradingSignal ::
  "('h, 'w) transport \<Rightarrow> (json \<Rightarrow> string) \<Rightarrow> int \<Rightarrow> 'h RedisClient \<Rightarrow>
     string \<Rightarrow> string \<Rightarrow> string \<Rightarrow> double \<Rightarrow> 'w \<Rightarrow> bool \<times> 'h RedisClient \<times> 'w" where
  "storeTradingSignal rc dump now c symbol signal reason confidence w =
     (if \<not> connected c then (False, c, w)
      else
        let key = ''signal:latest:'' @ symbol;
            json_str = dump (signal_data symbol signal reason confidence now);
            (reply, w1) = rc (context_ptr c) (SET (c_str key) (c_str json_str)) w
        in case reply of
             None \<Rightarrow> (False, c, w1)
           | Some r \<Rightarrow>
               let success = is_status r in
               if success
               then
                 let stream_key = ''signals:stream'';
                     (stream_reply, w2) =
                        rc (context_ptr c) (LPUSH (c_str stream_key) (c_str json_str)) w1
                 in (success, c, w2)
               else (success, c, w1))"

definition getStockData ::
  "('h, 'w) transport \<Rightarrow> 'h RedisClient \<Rightarrow> string \<Rightarrow> 'w \<Rightarrow> string \<times> 'h RedisClient \<times> 'w" where
  "getStockData rc c symbol w =
     (if \<not> connected c then ([], c, w)
      else
        let key = ''stock:current:'' @ symbol;
            (reply, w1) = rc (context_ptr c) (GET (c_str key)) w
        in case reply of
             Some (REDIS_REPLY_STRING result) \<Rightarrow> (result, c, w1)
           | _ \<Rightarrow> ([], c, w1))"

definition publishMarketUpdate ::
  "('h, 'w) transport \<Rightarrow> (json \<Rightarrow> string) \<Rightarrow> 'h RedisClient \<Rightarrow> string \<Rightarrow> json \<Rightarrow> 'w \<Rightarrow>
     bool \<times> 'h RedisClient \<times> 'w" where
  "publishMarketUpdate rc dump c channel data w =
     (if \<not> connected c then (False, c, w)
      else
        let json_str = dump data;
            (reply, w1) = rc (context_ptr c) (PUBLISH (c_str channel) (c_str json_str)) w
        in case reply of
             None \<Rightarrow> (False, c, w1)
           | Some r \<Rightarrow> (is_integer r, c, w1))"

text \<open>
  \<^verbatim>\<open>reply->element[i]->str\<close> is a null pointer for the replies that carry no string;
  building a \<^verbatim>\<open>std::string\<close> from it is undefined, which the model reports as \<open>None\<close>.
\<close>

fun reply_str :: "redisReply \<Rightarrow> string option" where
  "reply_str (REDIS_REPLY_STRING s) = Some s"
| "reply_str (REDIS_REPLY_STATUS s) = Some s"
| "reply_str (REDIS_REPLY_ERROR s) = Some s"
| "reply_str _ = None"

text \<open>\<^verbatim>\<open>key.substr(key.find_last_of(':') + 1)\<close>, for a key that holds a colon.\<close>

definition after_last_colon :: "string \<Rightarrow> string" where
  "after_last_colon key = rev (takeWhile (\<lambda>ch. ch \<noteq> CHR '':'') (rev key))"

fun collect_symbols :: "redisReply list \<Rightarrow> string list \<Rightarrow> string list option" where
  "collect_symbols [] symbols = Some symbols"
| "collect_symbols (e # es) symbols =
     (case reply_str e of
        None \<Rightarrow> None
      | Some key \<Rightarrow>
          collect_symbols es
            (if CHR '':'' \<in> set key then symbols @ [after_last_colon key] else symbols))"

definition getAvailableSymbols ::
  "('h, 'w) transport \<Rightarrow> 'h RedisClient \<Rightarrow> 'w \<Rightarrow> string list option \<times> 'h RedisClient \<times> 'w" where
  "getAvailableSymbols rc c w =
     (if \<not> connected c then (Some [], c, w)
      else
        let (reply, w1) = rc (context_ptr c) (KEYS ''stock:current:*'') w
        in case reply of
             Some (REDIS_REPLY_ARRAY elements) \<Rightarrow> (collect_symbols elements [], c, w1)
           | _ \<Rightarrow> (Some [], c, w1))"

subsection \<open>A transport that records the commands it is given\<close>

text \<open>
  The call-recording double of a transport: it behaves as \<open>rc\<close> and appends every
  command it receives to a log kept beside the world.
\<close>

definition spy :: "('h, 'w) transport \<Rightarrow> ('h, command list \<times> 'w) transport" where
  "spy rc h cmd lw =
     (let (reply, w') = rc h cmd (snd lw) in (reply, (fst lw @ [cmd], w')))"

section \<open>The store behind the connection\<close>

text \<open>
  Modelled from the spec: the store and the connection to it are not code of this
  repository. The spec describes the store as wire-compatible with a standard
  key-value, list and publish/subscribe store answering the six commands above: a SET
  replaces the value of a key whatever it held, an LPUSH prepends to the sequence at a
  key, an LTRIM keeps the entries between two indices, a GET reads a string value, a
  PUBLISH reports the number of subscribers that received the message and a KEYS
  enumerates the keys that match a pattern. A command on a key that holds the other
  kind of value is refused with an error reply and changes nothing.
\<close>

datatype rvalue = RString string | RList "string list"

text \<open>
  What the connection does with one command: the store executes it and the reply
  arrives; the command is lost before the store and the reply is null; the store
  executes it and the reply is lost, so it is null; the store refuses it with an error
  reply and executes nothing.
\<close>

datatype fault = Deliver | Drop | LostReply | Refuse string

text \<open>
  The keys with their values, the number of subscribers of each channel, and the script
  of the connection: the fate of the next commands, in order. Past the end of the
  script every command is delivered.
\<close>

record redis =
  keyspace :: "(string \<times> rvalue) list"
  subscribers :: "string \<Rightarrow> nat"
  plan :: "fault list"

definition kv :: "redis \<Rightarrow> string \<rightharpoonup> rvalue" where
  "kv w = map_of (keyspace w)"

text \<open>The entries an LTRIM keeps; negative indices count from the end.\<close>

definition ltrim :: "int \<Rightarrow> int \<Rightarrow> 'a list \<Rightarrow> 'a list" where
  "ltrim start stop xs =
     (let llen = int (length xs);
          s = (if start < 0 then max 0 (llen + start) else start);
          e = (if stop < 0 then llen + stop else stop)
      in if s > e \<or> s \<ge> llen then []
         else take (nat (min e (llen - 1) - s + 1)) (drop (nat s) xs))"

text \<open>Pattern matching of KEYS; of the pattern syntax only \<^verbatim>\<open>*\<close> is special here.\<close>

fun glob :: "string \<Rightarrow> string \<Rightarrow> bool" where
  "glob [] s = (s = [])"
| "glob (p # ps) [] = (p = CHR ''*'' \<and> glob ps [])"
| "glob (p # ps) (ch # s) =
     (if p = CHR ''*'' then glob ps (ch # s) \<or> glob (p # ps) s else p = ch \<and> glob ps s)"

definition WRONGTYPE :: redisReply where
  "WRONGTYPE =
     REDIS_REPLY_ERROR ''WRONGTYPE Operation against a key holding the wrong kind of value''"

text \<open>
  Modelled from the spec: the store executing one command (the store is not code of
  this repository). A sequence that becomes empty is removed with its key. The string
  of a reply is read as a C string, hence \<open>c_str\<close>.
\<close>

fun exec :: "command \<Rightarrow> redis \<Rightarrow> redisReply \<times> redis" where
  "exec (SET k v) w =
     (REDIS_REPLY_STATUS ''OK'', w\<lparr>keyspace := AList.update k (RString v) (keyspace w)\<rparr>)"
| "exec (LPUSH k v) w =
     (case kv w k of
        None \<Rightarrow>
          (REDIS_REPLY_INTEGER 1, w\<lparr>keyspace := AList.update k (RList [v]) (keyspace w)\<rparr>)
      | Some (RList xs) \<Rightarrow>
          (REDIS_REPLY_INTEGER (int (length xs) + 1),
           w\<lparr>keyspace := AList.update k (RList (v # xs)) (keyspace w)\<rparr>)
      | Some (RString s) \<Rightarrow> (WRONGTYPE, w))"
| "exec (LTRIM k start stop) w =
     (case kv w k of
        None \<Rightarrow> (REDIS_REPLY_STATUS ''OK'', w)
      | Some (RList xs) \<Rightarrow>
          (REDIS_REPLY_STATUS ''OK'',
           if ltrim start stop xs = [] then w\<lparr>keyspace := AList.delete k (keyspace w)\<rparr>
           else w\<lparr>keyspace := AList.update k (RList (ltrim start stop xs)) (keyspace w)\<rparr>)
      | Some (RString s) \<Rightarrow> (WRONGTYPE, w))"
| "exec (GET k) w =
     (case kv w k of
        None \<Rightarrow> (REDIS_REPLY_NIL, w)
      | Some (RString v) \<Rightarrow> (REDIS_REPLY_STRING (c_str v), w)
      | Some (RList xs) \<Rightarrow> (WRONGTYPE, w))"
| "exec (PUBLISH channel message) w =
     (REDIS_REPLY_INTEGER (int (subscribers w channel)), w)"
| "exec (KEYS pattern) w =
     (REDIS_REPLY_ARRAY
        (map (\<lambda>k. REDIS_REPLY_STRING (c_str k))
           (filter (glob pattern) (map fst (keyspace w)))), w)"

definition nth_fault :: "redis \<Rightarrow> nat \<Rightarrow> fault" where
  "nth_fault w n = (if n < length (plan w) then plan w ! n else Deliver)"

text \<open>
  Modelled from the spec: \<^verbatim>\<open>redisCommand\<close> of hiredis on this store (hiredis is not
  code of this repository). The head of the script decides the fate of the command.
  Without a context no command is sent.
\<close>

definition redisCommand :: "('h, redis) transport" where
  "redisCommand h cmd w =
     (case h of
        None \<Rightarrow> (None, w)
      | Some handle \<Rightarrow>
          (let w0 = w\<lparr>plan := tl (plan w)\<rparr> in
           (case nth_fault w 0 of
              Deliver \<Rightarrow> (Some (fst (exec cmd w0)), snd (exec cmd w0))
            | Drop \<Rightarrow> (None, w0)
            | LostReply \<Rightarrow> (None, snd (exec cmd w0))
            | Refuse e \<Rightarrow> (Some (REDIS_REPLY_ERROR e), w0))))"

text \<open>The sequence at a key, newest first; empty when the key holds no sequence.\<close>

definition lrange_all :: "redis \<Rightarrow> string \<Rightarrow> string list" where
  "lrange_all w k = (case kv w k of Some (RList xs) \<Rightarrow> xs | _ \<Rightarrow> [])"

definition history :: "redis \<Rightarrow> string \<Rightarrow> string list" where
  "history w symbol = lrange_all w (c_str (''stock:history:'' @ symbol))"

definition signal_queue :: "redis \<Rightarrow> string list" where
  "signal_queue w = lrange_all w ''signals:stream''"

definition holds_string :: "redis \<Rightarrow> string \<Rightarrow> bool" where
  "holds_string w k = (case kv w k of Some (RString s) \<Rightarrow> True | _ \<Rightarrow> False)"

text \<open>The fates in which the store executes the command, whether the reply arrives or not.\<close>

fun executes :: "fault \<Rightarrow> bool" where
  "executes Deliver = True"
| "executes LostReply = True"
| "executes Drop = False"
| "executes (Refuse e) = False"

fun writes_to :: "command \<Rightarrow> string \<Rightarrow> bool" where
  "writes_to (SET k v) k' = (k = k')"
| "writes_to (LPUSH k v) k' = (k = k')"
| "writes_to (LTRIM k start stop) k' = (k = k')"
| "writes_to _ k' = False"

subsection \<open>Callers\<close>

text \<open>A caller that stores a sequence of quotes, one \<^verbatim>\<open>storeStockData\<close> call each.\<close>

fun storeQuotes ::
  "('h, 'w) transport \<Rightarrow> (json \<Rightarrow> string) \<Rightarrow> 'h RedisClient \<Rightarrow> (string \<times> json) list \<Rightarrow> 'w \<Rightarrow>
     bool list \<times> 'h RedisClient \<times> 'w" where
  "storeQuotes rc dump c [] w = ([], c, w)"
| "storeQuotes rc dump c ((symbol, data) # rest) w =
     (let (ok, c1, w1) = storeStockData rc dump c symbol data w;
          (oks, c2, w2) = storeQuotes rc dump c1 rest w1
      in (ok # oks, c2, w2))"

text \<open>The blobs a sequence of quote writes serialises for the history key of a symbol.\<close>

definition quote_blobs ::
  "(json \<Rightarrow> string) \<Rightarrow> string \<Rightarrow> (string \<times> json) list \<Rightarrow> string list" where
  "quote_blobs dump symbol writes =
     map (\<lambda>(s, d). c_str (dump d)) (filter (\<lambda>(s, d). c_str s = c_str symbol) writes)"

text \<open>The writes of a sequence whose call has returned true, given the results of the calls.\<close>

definition acknowledged :: "bool list \<Rightarrow> (string \<times> json) list \<Rightarrow> (string \<times> json) list" where
  "acknowledged oks writes = map snd (filter fst (zip oks writes))"

text \<open>
  Along a sequence of quote writes on the store, every call for the key of the symbol
  that returns true has its LPUSH and its LTRIM executed by the store: they are the
  second and the third command the call gives to the connection.
\<close>

fun followups_executed ::
  "(json \<Rightarrow> string) \<Rightarrow> 'h RedisClient \<Rightarrow> string \<Rightarrow> (string \<times> json) list \<Rightarrow> redis \<Rightarrow> bool" where
  "followups_executed dump c symbol [] w = True"
| "followups_executed dump c symbol ((s, d) # rest) w =
     (let (ok, c1, w1) = storeStockData redisCommand dump c s d w in
      (ok \<and> c_str s = c_str symbol \<longrightarrow>
         executes (nth_fault w 1) \<and> executes (nth_fault w 2)) \<and>
      followups_executed dump c1 symbol rest w1)"

subsection \<open>Fixtures\<close>

text \<open>
  A connected and a disconnected client, and an empty store with a given script. The
  double of the serializer writes every document as the text \<^verbatim>\<open>null\<close>, as the JSON
  library does for the document \<^verbatim>\<open>null\<close>; the double of the parser reads that text
  back and rejects every other text.
\<close>

definition client0 :: "nat RedisClient" where
  "client0 = \<lparr>context_ptr = Some 0, host = ''localhost'', port = 6379, connected = True\<rparr>"

definition offline :: "nat RedisClient" where
  "offline = \<lparr>context_ptr = None, host = ''localhost'', port = 6379, connected = False\<rparr>"

definition no_subscribers :: "string \<Rightarrow> nat" where
  "no_subscribers channel = 0"

definition store0 :: "fault list \<Rightarrow> redis" where
  "store0 script = \<lparr>keyspace = [], subscribers = no_subscribers, plan = script\<rparr>"

definition dump_stub :: "json \<Rightarrow> string" where
  "dump_stub j = ''null''"

text \<open>
  A double of the serializer that tells three documents apart: it writes \<^verbatim>\<open>true\<close>,
  \<^verbatim>\<open>false\<close> and \<^verbatim>\<open>null\<close> as the JSON library does, and every other document as \<^verbatim>\<open>null\<close>.
\<close>

definition dump_literal :: "json \<Rightarrow> string" where
  "dump_literal j =
     (case j of JBoolean b \<Rightarrow> (if b then ''true'' else ''false'') | _ \<Rightarrow> ''null'')"

definition parse_stub :: "string \<Rightarrow> json option" where
  "parse_stub s = (if s = ''null'' then Some JNull else None)"

section \<open>Lemmas\<close>

subsection \<open>C strings\<close>

lemma c_str_Nil: "c_str [] = []"
  by (simp add: c_str_def)

lemma c_str_Cons: "c_str (ch # s) = (if ch = CHR 0x00 then [] else ch # c_str s)"
  by (simp add: c_str_def)

lemmas c_str_simps = c_str_Nil c_str_Cons

lemma c_str_idem: "c_str (c_str s) = c_str s"
  by (simp add: c_str_def)

subsection \<open>The recording transport\<close>

lemma fst_spy: "fst (spy rc h cmd (log, w)) = fst (rc h cmd w)"
  by (simp add: spy_def case_prod_beta)

lemma snd_spy: "snd (spy rc h cmd (log, w)) = (log @ [cmd], snd (rc h cmd w))"
  by (simp add: spy_def case_prod_beta)

subsection \<open>The two outcomes of a connected quote write\<close>

lemma storeStockData_acknowledged:
  assumes "connected c"
    and "fst (rc (context_ptr c) (SET (c_str (''stock:current:'' @ s)) (c_str (dump d))) w)
           = Some (REDIS_REPLY_STATUS ''OK'')"
  shows "storeStockData rc dump c s d w =
     (True, c,
      snd (rc (context_ptr c) (LTRIM (c_str (''stock:history:'' @ s)) 0 999)
        (snd (rc (context_ptr c) (LPUSH (c_str (''stock:history:'' @ s)) (c_str (dump d)))
          (snd (rc (context_ptr c) (SET (c_str (''stock:current:'' @ s)) (c_str (dump d))) w))))))"
  using assms by (simp add: storeStockData_def Let_def case_prod_beta status_is_OK_def)

lemma storeStockData_refused:
  assumes "connected c"
    and "fst (rc (context_ptr c) (SET (c_str (''stock:current:'' @ s)) (c_str (dump d))) w)
           \<noteq> Some (REDIS_REPLY_STATUS ''OK'')"
  shows "storeStockData rc dump c s d w =
     (False, c, snd (rc (context_ptr c) (SET (c_str (''stock:current:'' @ s)) (c_str (dump d))) w))"
  using assms
  by (auto simp: storeStockData_def Let_def case_prod_beta status_is_OK_def
           split: option.splits redisReply.splits)

subsection \<open>The store, command by command\<close>

lemma ltrim_0_999: "ltrim 0 999 xs = take 1000 xs"
  by (auto simp: ltrim_def Let_def min_def)

lemma kv_plan: "kv (w\<lparr>plan := p\<rparr>) = kv w"
  by (simp add: kv_def)

lemma map_of_keyspace: "map_of (keyspace w) = kv w"
  by (simp add: kv_def)

lemma kv_keyspace: "kv (w\<lparr>keyspace := ks\<rparr>) = map_of ks"
  by (simp add: kv_def)

lemmas kv_simps = kv_plan map_of_keyspace kv_keyspace update_conv' delete_conv'

lemma exec_plan: "plan (snd (exec cmd w)) = plan w"
  by (cases cmd) (auto split: option.splits rvalue.splits)

lemma kv_exec_plan: "kv (snd (exec cmd (w\<lparr>plan := p\<rparr>))) = kv (snd (exec cmd w))"
  by (cases cmd) (auto simp: kv_simps split: option.splits rvalue.splits)

lemma fst_exec_plan: "fst (exec cmd (w\<lparr>plan := p\<rparr>)) = fst (exec cmd w)"
  by (cases cmd) (auto simp: kv_simps split: option.splits rvalue.splits)

lemma fst_exec_SET: "fst (exec (SET k v) w) = REDIS_REPLY_STATUS ''OK''"
  by simp

lemma kv_exec_SET: "kv (snd (exec (SET k v) w)) = (kv w)(k \<mapsto> RString v)"
  by (simp add: kv_simps)

lemma kv_exec_LPUSH:
  "kv (snd (exec (LPUSH k v) w)) =
     (if holds_string w k then kv w else (kv w)(k \<mapsto> RList (v # lrange_all w k)))"
  by (auto simp: kv_simps holds_string_def lrange_all_def split: option.splits rvalue.splits)

lemma kv_exec_LTRIM:
  "kv w k = Some (RList (x # xs)) \<Longrightarrow>
     kv (snd (exec (LTRIM k 0 999) w)) = (kv w)(k \<mapsto> RList (take 1000 (x # xs)))"
  by (simp add: kv_simps ltrim_0_999)

lemma kv_exec_LTRIM_string:
  "holds_string w k \<Longrightarrow> kv (snd (exec (LTRIM k start stop) w)) = kv w"
  by (auto simp: holds_string_def split: option.splits rvalue.splits)

lemma exec_frame: "\<not> writes_to cmd k \<Longrightarrow> kv (snd (exec cmd w)) k = kv w k"
  by (cases cmd) (auto simp: kv_simps split: option.splits rvalue.splits)

lemma exec_GET_string:
  "kv w k = Some (RString v) \<Longrightarrow> fst (exec (GET k) w) = REDIS_REPLY_STRING (c_str v)"
  by simp

declare exec.simps [simp del]

subsection \<open>The connection, command by command\<close>

lemma fst_redisCommand:
  "fst (redisCommand (Some h) cmd w) =
     (case nth_fault w 0 of
        Deliver \<Rightarrow> Some (fst (exec cmd w))
      | Refuse e \<Rightarrow> Some (REDIS_REPLY_ERROR e)
      | _ \<Rightarrow> None)"
  by (simp add: redisCommand_def Let_def fst_exec_plan split: fault.splits)

lemma kv_redisCommand:
  "kv (snd (redisCommand (Some h) cmd w)) =
     (case nth_fault w 0 of
        Deliver \<Rightarrow> kv (snd (exec cmd w))
      | LostReply \<Rightarrow> kv (snd (exec cmd w))
      | _ \<Rightarrow> kv w)"
  by (simp add: redisCommand_def Let_def kv_exec_plan kv_plan split: fault.splits)

lemma plan_redisCommand: "plan (snd (redisCommand (Some h) cmd w)) = tl (plan w)"
  by (simp add: redisCommand_def Let_def exec_plan split: fault.splits)

lemma nth_fault_redisCommand:
  "nth_fault (snd (redisCommand (Some h) cmd w)) n = nth_fault w (Suc n)"
  by (cases "plan w") (simp_all add: nth_fault_def plan_redisCommand)

lemma redisCommand_frame:
  "\<not> writes_to cmd k \<Longrightarrow> kv (snd (redisCommand h cmd w)) k = kv w k"
  by (auto simp: redisCommand_def Let_def exec_frame kv_exec_plan kv_plan
           split: option.splits fault.splits)

lemma redisCommand_status_delivered:
  assumes "fst (redisCommand h cmd w) = Some (REDIS_REPLY_STATUS s)"
  shows "h \<noteq> None \<and> nth_fault w 0 = Deliver"
  using assms by (auto simp: redisCommand_def Let_def split: option.splits fault.splits)

lemma kv_redisCommand_executes:
  "executes (nth_fault w 0) \<Longrightarrow>
     kv (snd (redisCommand (Some h) cmd w)) = kv (snd (exec cmd w))"
  by (cases "nth_fault w 0") (simp_all add: kv_redisCommand)

lemma views_frame:
  assumes "kv w' k = kv w k"
  shows "lrange_all w' k = lrange_all w k" and "holds_string w' k = holds_string w k"
  using assms by (simp_all add: lrange_all_def holds_string_def)

lemma storeStockData_client: "fst (snd (storeStockData rc dump c s d w)) = c"
  by (auto simp: storeStockData_def Let_def case_prod_beta split: option.splits)

subsection \<open>Return values against the reply to the primary write\<close>

lemma storeStockData_result:
  "connected c \<Longrightarrow>
     fst (storeStockData rc dump c symbol data w) =
       (fst (rc (context_ptr c) (SET (c_str (''stock:current:'' @ symbol)) (c_str (dump data))) w)
          = Some (REDIS_REPLY_STATUS ''OK''))"
  by (auto simp: storeStockData_def status_is_OK_def Let_def case_prod_beta
           split: option.splits redisReply.splits)


lemma storeTradingSignal_result:
  "connected c \<Longrightarrow>
     fst (storeTradingSignal rc dump now c symbol signal reason confidence w) =
       (\<exists>s. fst (rc (context_ptr c) (SET (c_str (''signal:latest:'' @ symbol))
                (c_str (dump (signal_data symbol signal reason confidence now)))) w)
              = Some (REDIS_REPLY_STATUS s))"
  by (auto simp: storeTradingSignal_def is_status_def Let_def case_prod_beta
           split: option.splits redisReply.splits)

lemmas fixture_defs = client0_def offline_def store0_def dump_stub_def parse_stub_def
  no_subscribers_def

lemmas store_eval = redisCommand_def nth_fault_def exec.simps kv_def lrange_all_def history_def
  signal_queue_def holds_string_def c_str_def WRONGTYPE_def

subsection \<open>One quote write and the history of a symbol\<close>

lemma kv_SET_LPUSH_LTRIM:
  fixes w :: redis and h :: "'h" and key hk b :: string
  assumes "key \<noteq> hk" and "\<not> holds_string w hk"
    and "executes (nth_fault w 0)" "executes (nth_fault w 1)" "executes (nth_fault w 2)"
  defines "w1 \<equiv> snd (redisCommand (Some h) (SET key b) w)"
  defines "w2 \<equiv> snd (redisCommand (Some h) (LPUSH hk b) w1)"
  defines "w3 \<equiv> snd (redisCommand (Some h) (LTRIM hk 0 999) w2)"
  shows "kv w3 = (kv w)(key \<mapsto> RString b, hk \<mapsto> RList (take 1000 (b # lrange_all w hk)))"
proof -
  have kv1: "kv w1 = (kv w)(key \<mapsto> RString b)"
    using assms(3) by (simp add: w1_def kv_redisCommand_executes kv_exec_SET)
  have f2: "executes (nth_fault w1 0)"
    using assms(4) by (simp add: w1_def nth_fault_redisCommand)
  have f3: "executes (nth_fault w2 0)"
    using assms(5) by (simp add: w1_def w2_def nth_fault_redisCommand numeral_2_eq_2)
  have hs1: "\<not> holds_string w1 hk"
    using assms(1,2) by (simp add: holds_string_def kv1)
  have lr1: "lrange_all w1 hk = lrange_all w hk"
    using assms(1) by (simp add: lrange_all_def kv1)
  have kv2: "kv w2 = (kv w1)(hk \<mapsto> RList (b # lrange_all w hk))"
    using f2 hs1 lr1 by (simp add: w2_def kv_redisCommand_executes kv_exec_LPUSH)
  then have "kv w2 hk = Some (RList (b # lrange_all w hk))"
    by simp
  then have "kv w3 = (kv w2)(hk \<mapsto> RList (take 1000 (b # lrange_all w hk)))"
    using f3 by (simp add: w3_def kv_redisCommand_executes kv_exec_LTRIM)
  then show ?thesis
    using kv1 kv2 by simp
qed

lemma storeStockData_history_step:
  fixes c :: "'h RedisClient" and w :: redis
  assumes nostring: "\<not> holds_string w (c_str (''stock:history:'' @ symbol))"
    and followups: "fst (storeStockData redisCommand dump c s d w) \<and> c_str s = c_str symbol \<longrightarrow>
           executes (nth_fault w 1) \<and> executes (nth_fault w 2)"
  shows "\<not> holds_string (snd (snd (storeStockData redisCommand dump c s d w)))
             (c_str (''stock:history:'' @ symbol))"
    and "history (snd (snd (storeStockData redisCommand dump c s d w))) symbol =
           (if fst (storeStockData redisCommand dump c s d w) \<and> c_str s = c_str symbol
            then take 1000 (c_str (dump d) # history w symbol)
            else history w symbol)"
proof -
  define hk where "hk = c_str (''stock:history:'' @ symbol)"
  define hks where "hks = c_str (''stock:history:'' @ s)"
  define key where "key = c_str (''stock:current:'' @ s)"
  define b where "b = c_str (dump d)"
  define ok where "ok = fst (storeStockData redisCommand dump c s d w)"
  define w' where "w' = snd (snd (storeStockData redisCommand dump c s d w))"
  let ?r1 = "redisCommand (context_ptr c) (SET key b) w"
  let ?r2 = "redisCommand (context_ptr c) (LPUSH hks b) (snd ?r1)"
  let ?r3 = "redisCommand (context_ptr c) (LTRIM hks 0 999) (snd ?r2)"
  have key_hk: "key \<noteq> hk"
    by (simp add: key_def hk_def c_str_simps)
  have hks_hk: "hks = hk \<longleftrightarrow> c_str s = c_str symbol"
    by (simp add: hks_def hk_def c_str_simps)
  have nostring': "\<not> holds_string w hk"
    using nostring by (simp add: hk_def)
  have ok_iff: "connected c \<Longrightarrow> ok = (fst ?r1 = Some (REDIS_REPLY_STATUS ''OK''))"
    unfolding ok_def key_def b_def by (rule storeStockData_result)
  have run_ok: "w' = snd ?r3" if "connected c" "ok"
    using storeStockData_acknowledged [where rc = redisCommand and dump = dump and c = c
        and s = s and d = d and w = w] that ok_iff
    by (simp add: w'_def key_def hks_def b_def)
  have run_refused: "w' = snd ?r1" if "connected c" "\<not> ok"
    using storeStockData_refused [where rc = redisCommand and dump = dump and c = c
        and s = s and d = d and w = w] that ok_iff
    by (simp add: w'_def key_def b_def)
  have run_off: "w' = w \<and> \<not> ok" if "\<not> connected c"
    using that by (simp add: w'_def ok_def storeStockData_def)
  have unchanged: "kv w' hk = kv w hk" if "\<not> (ok \<and> c_str s = c_str symbol)"
  proof (cases "connected c")
    case False
    then show ?thesis
      using run_off by simp
  next
    case conn: True
    show ?thesis
    proof (cases ok)
      case False
      then show ?thesis
        using conn run_refused key_hk by (simp add: redisCommand_frame)
    next
      case True
      then have "hks \<noteq> hk"
        using that hks_hk by simp
      then show ?thesis
        using conn True run_ok key_hk by (simp add: redisCommand_frame)
    qed
  qed
  have prepended: "kv w' hk = Some (RList (take 1000 (b # lrange_all w hk)))"
    if "ok" "c_str s = c_str symbol"
  proof -
    have conn: "connected c"
      using that(1) run_off by blast
    have same: "hks = hk"
      using that(2) hks_hk by simp
    have "fst ?r1 = Some (REDIS_REPLY_STATUS ''OK'')"
      using conn that(1) ok_iff by simp
    from redisCommand_status_delivered [OF this]
    obtain h where h: "context_ptr c = Some h" and f1: "nth_fault w 0 = Deliver"
      by auto
    have f23: "executes (nth_fault w 1)" "executes (nth_fault w 2)"
      using followups that by (simp_all add: ok_def)
    have "executes (nth_fault w 0)"
      by (simp add: f1)
    from kv_SET_LPUSH_LTRIM [OF key_hk nostring' this f23, of h b]
    show ?thesis
      using run_ok [OF conn that(1)] by (simp add: h same)
  qed
  have views: "history w symbol = lrange_all w hk" "history w' symbol = lrange_all w' hk"
    by (simp_all add: history_def hk_def)
  show "\<not> holds_string (snd (snd (storeStockData redisCommand dump c s d w)))
             (c_str (''stock:history:'' @ symbol))"
  proof (cases "ok \<and> c_str s = c_str symbol")
    case True
    then have "\<not> holds_string w' hk"
      using prepended by (simp add: holds_string_def)
    then show ?thesis
      by (simp add: w'_def hk_def)
  next
    case False
    then have "\<not> holds_string w' hk"
      using views_frame(2) [OF unchanged] nostring' by simp
    then show ?thesis
      by (simp add: w'_def hk_def)
  qed
  have "history w' symbol =
           (if ok \<and> c_str s = c_str symbol then take 1000 (b # history w symbol)
            else history w symbol)"
  proof (cases "ok \<and> c_str s = c_str symbol")
    case True
    then have "lrange_all w' hk = take 1000 (b # lrange_all w hk)"
      using prepended by (simp add: lrange_all_def)
    then show ?thesis
      using True by (simp add: views)
  next
    case False
    then have "lrange_all w' hk = lrange_all w hk"
      using views_frame(1) [OF unchanged] by simp
    then show ?thesis
      using False by (auto simp: views)
  qed
  then show "history (snd (snd (storeStockData redisCommand dump c s d w))) symbol =
           (if fst (storeStockData redisCommand dump c s d w) \<and> c_str s = c_str symbol
            then take 1000 (c_str (dump d) # history w symbol)
            else history w symbol)"
    by (simp only: w'_def ok_def b_def)
qed

subsection \<open>A sequence of quote writes and the history of a symbol\<close>

lemma take_append_take: "take n (xs @ take n ys) = take n (xs @ ys)"
  by (simp add: min_def)

lemma quote_blobs_Nil: "quote_blobs dump symbol [] = []"
  by (simp add: quote_blobs_def)

lemma quote_blobs_Cons:
  "quote_blobs dump symbol ((s, d) # writes) =
     (if c_str s = c_str symbol then c_str (dump d) # quote_blobs dump symbol writes
      else quote_blobs dump symbol writes)"
  by (simp add: quote_blobs_def)

lemma acknowledged_Nil: "acknowledged oks [] = []"
  by (simp add: acknowledged_def)

lemma acknowledged_Cons:
  "acknowledged (ok # oks) (a # writes) =
     (if ok then a # acknowledged oks writes else acknowledged oks writes)"
  by (simp add: acknowledged_def)

lemma history_storeQuotes:
  fixes c :: "'h RedisClient" and w :: redis
  shows "followups_executed dump c symbol writes w \<Longrightarrow>
     \<not> holds_string w (c_str (''stock:history:'' @ symbol)) \<Longrightarrow>
     history (snd (snd (storeQuotes redisCommand dump c writes w))) symbol =
       (if quote_blobs dump symbol
             (acknowledged (fst (storeQuotes redisCommand dump c writes w)) writes) = []
        then history w symbol
        else take 1000
          (rev (quote_blobs dump symbol
             (acknowledged (fst (storeQuotes redisCommand dump c writes w)) writes))
           @ history w symbol))"
proof (induction writes arbitrary: w)
  case Nil
  then show ?case
    by (simp add: acknowledged_Nil quote_blobs_Nil)
next
  case (Cons a writes)
  obtain s d where a: "a = (s, d)" by (cases a)
  define ok where "ok = fst (storeStockData redisCommand dump c s d w)"
  define w1 where "w1 = snd (snd (storeStockData redisCommand dump c s d w))"
  define rest where "rest = storeQuotes redisCommand dump c writes w1"
  define qs where "qs = quote_blobs dump symbol (acknowledged (fst rest) writes)"
  let ?b = "c_str (dump d)"
  have client: "fst (snd (storeStockData redisCommand dump c s d w)) = c"
    by (rule storeStockData_client)
  have run: "storeQuotes redisCommand dump c (a # writes) w = (ok # fst rest, snd rest)"
    by (simp add: a case_prod_beta client ok_def w1_def rest_def)
  have followups: "ok \<and> c_str s = c_str symbol \<longrightarrow>
      executes (nth_fault w 1) \<and> executes (nth_fault w 2)"
    and later: "followups_executed dump c symbol writes w1"
    using Cons.prems(1) by (simp_all add: a case_prod_beta client ok_def w1_def)
  note step = storeStockData_history_step
    [where dump = dump and c = c and s = s and d = d and w = w and symbol = symbol,
     OF Cons.prems(2) followups [unfolded ok_def]]
  have hs1: "\<not> holds_string w1 (c_str (''stock:history:'' @ symbol))"
    using step(1) by (simp add: w1_def)
  define cond where "cond = (ok \<and> c_str s = c_str symbol)"
  have h1: "history w1 symbol =
      (if cond then take 1000 (?b # history w symbol) else history w symbol)"
    using step(2) by (simp only: w1_def ok_def cond_def)
  from Cons.IH [OF later hs1]
  have hist: "history (snd (snd rest)) symbol =
       (if qs = [] then history w1 symbol else take 1000 (rev qs @ history w1 symbol))"
    by (simp only: rest_def qs_def)
  have blobs: "quote_blobs dump symbol (acknowledged (ok # fst rest) (a # writes)) =
      (if cond then ?b # qs else qs)"
    by (simp add: a acknowledged_Cons quote_blobs_Cons qs_def cond_def)
  have "history (snd (snd rest)) symbol =
       (if (if cond then ?b # qs else qs) = [] then history w symbol
        else take 1000 (rev (if cond then ?b # qs else qs) @ history w symbol))"
  proof (cases cond)
    case False
    then have "history w1 symbol = history w symbol"
      using h1 by simp
    then show ?thesis
      using False hist by simp
  next
    case True
    then have h1': "history w1 symbol = take 1000 (?b # history w symbol)"
      using h1 by simp
    have "history (snd (snd rest)) symbol = take 1000 (rev qs @ ?b # history w symbol)"
    proof (cases "qs = []")
      case True
      then show ?thesis
        by (simp add: hist h1')
    next
      case False
      then have "history (snd (snd rest)) symbol =
          take 1000 (rev qs @ take 1000 (?b # history w symbol))"
        by (simp only: hist h1' if_False)
      also have "\<dots> = take 1000 (rev qs @ ?b # history w symbol)"
        by (rule take_append_take)
      finally show ?thesis .
    qed
    then show ?thesis
      using True by simp
  qed
  then show ?case
    by (simp only: run blobs fst_conv snd_conv)
qed

section \<open>Properties of the client\<close>

subsection \<open>Return values\<close>

text \<open>
  C5. On a connected client \<^verbatim>\<open>storeStockData\<close> returns true exactly when the reply to
  its SET is a status reply whose string is "OK": a null reply, a reply of another type
  and a status with another string, such as "ok", give false.
\<close>

theorem storeStockData_true_iff_status_OK:
  "connected c \<Longrightarrow>
     fst (storeStockData rc dump c symbol data w) =
       (fst (rc (context_ptr c) (SET (c_str (''stock:current:'' @ symbol)) (c_str (dump data))) w)
          = Some (REDIS_REPLY_STATUS ''OK''))"
  by (rule storeStockData_result)

theorem storeStockData_true_iff_status_OK_witness:
  "connected client0 \<and>
   fst (storeStockData redisCommand dump_stub client0 ''AAPL'' JNull (store0 [])) = True \<and>
   fst (storeStockData redisCommand dump_stub client0 ''AAPL'' JNull (store0 [Drop])) = False \<and>
   fst (storeStockData redisCommand dump_stub client0 ''AAPL'' JNull (store0 [Refuse ''OOM''])) = False"
proof -
  have conn: "connected client0"
    by (simp add: client0_def)
  have "fst (redisCommand (context_ptr client0)
          (SET (c_str (''stock:current:'' @ ''AAPL'')) (c_str (dump_stub JNull))) (store0 []))
        = Some (REDIS_REPLY_STATUS ''OK'')"
    and "fst (redisCommand (context_ptr client0)
          (SET (c_str (''stock:current:'' @ ''AAPL'')) (c_str (dump_stub JNull))) (store0 [Drop]))
        \<noteq> Some (REDIS_REPLY_STATUS ''OK'')"
    and "fst (redisCommand (context_ptr client0)
          (SET (c_str (''stock:current:'' @ ''AAPL'')) (c_str (dump_stub JNull)))
          (store0 [Refuse ''OOM''])) \<noteq> Some (REDIS_REPLY_STATUS ''OK'')"
    by (simp_all add: fixture_defs store_eval)
  then show ?thesis
    using conn
      storeStockData_true_iff_status_OK
        [OF conn, of redisCommand dump_stub "''AAPL''" JNull "store0 []"]
      storeStockData_true_iff_status_OK
        [OF conn, of redisCommand dump_stub "''AAPL''" JNull "store0 [Drop]"]
      storeStockData_true_iff_status_OK
        [OF conn, of redisCommand dump_stub "''AAPL''" JNull "store0 [Refuse ''OOM'']"]
    by simp
qed

text \<open>
  C2. On a connected client, when the reply to the SET of a quote is the status "OK",
  \<^verbatim>\<open>storeStockData\<close> returns true whatever the transport answers to the LPUSH and the
  LTRIM that follow, null and error replies included: two transports that both
  acknowledge the SET give the same return value.
\<close>

theorem storeStockData_ignores_history_replies:
  assumes "connected c"
    and "fst (rc (context_ptr c) (SET (c_str (''stock:current:'' @ symbol)) (c_str (dump data))) w)
           = Some (REDIS_REPLY_STATUS ''OK'')"
  shows "fst (storeStockData rc dump c symbol data w) = True \<and>
     (fst (rc' (context_ptr c) (SET (c_str (''stock:current:'' @ symbol)) (c_str (dump data))) w')
        = Some (REDIS_REPLY_STATUS ''OK'') \<longrightarrow>
      fst (storeStockData rc' dump c symbol data w') = fst (storeStockData rc dump c symbol data w))"
  using assms by (simp add: storeStockData_result)

theorem storeStockData_ignores_history_replies_witness:
  "connected client0 \<and>
   fst (redisCommand (context_ptr client0)
          (SET (c_str (''stock:current:'' @ ''AAPL'')) (c_str (dump_stub JNull)))
          (store0 [Deliver, Refuse ''OOM'', Drop])) = Some (REDIS_REPLY_STATUS ''OK'') \<and>
   fst (storeStockData redisCommand dump_stub client0 ''AAPL'' JNull
          (store0 [Deliver, Refuse ''OOM'', Drop])) = True"
proof -
  have conn: "connected client0"
    by (simp add: client0_def)
  have ack: "fst (redisCommand (context_ptr client0)
          (SET (c_str (''stock:current:'' @ ''AAPL'')) (c_str (dump_stub JNull)))
          (store0 [Deliver, Refuse ''OOM'', Drop])) = Some (REDIS_REPLY_STATUS ''OK'')"
    by (simp add: fixture_defs store_eval)
  from storeStockData_ignores_history_replies
    [where c = client0 and rc = redisCommand and dump = dump_stub and symbol = "''AAPL''"
       and data = JNull and w = "store0 [Deliver, Refuse ''OOM'', Drop]"
       and rc' = redisCommand and w' = "store0 []", OF conn ack]
    conn ack
  show ?thesis
    by simp
qed

text \<open>
  C6. On a connected client \<^verbatim>\<open>storeTradingSignal\<close> returns true exactly when the reply
  to its SET is not null and is a status reply, whatever its string. The test is
  strictly looser than the one of \<^verbatim>\<open>storeStockData\<close>: every reply that one accepts is
  accepted here, and the status "QUEUED" is accepted here and rejected there.
\<close>

theorem storeTradingSignal_true_iff_status:
  assumes "connected c"
  shows "fst (storeTradingSignal rc dump now c symbol signal reason confidence w) =
       (\<exists>s. fst (rc (context_ptr c) (SET (c_str (''signal:latest:'' @ symbol))
                (c_str (dump (signal_data symbol signal reason confidence now)))) w)
              = Some (REDIS_REPLY_STATUS s)) \<and>
     (status_is_OK r \<longrightarrow> is_status r) \<and>
     is_status (REDIS_REPLY_STATUS ''QUEUED'') \<and> \<not> status_is_OK (REDIS_REPLY_STATUS ''QUEUED'')"
  using assms
  by (auto simp: storeTradingSignal_result status_is_OK_def is_status_def
           split: redisReply.splits)

theorem storeTradingSignal_true_iff_status_witness:
  "connected client0 \<and>
   fst (storeTradingSignal redisCommand dump_stub 1700000000 client0
          ''AAPL'' ''BUY'' ''momentum'' 0 (store0 [])) = True \<and>
   fst (storeTradingSignal redisCommand dump_stub 1700000000 client0
          ''AAPL'' ''BUY'' ''momentum'' 0 (store0 [Drop])) = False"
proof -
  have conn: "connected client0"
    by (simp add: client0_def)
  have "\<exists>s. fst (redisCommand (context_ptr client0) (SET (c_str (''signal:latest:'' @ ''AAPL''))
          (c_str (dump_stub (signal_data ''AAPL'' ''BUY'' ''momentum'' 0 1700000000))))
          (store0 [])) = Some (REDIS_REPLY_STATUS s)"
    and "\<not> (\<exists>s. fst (redisCommand (context_ptr client0) (SET (c_str (''signal:latest:'' @ ''AAPL''))
          (c_str (dump_stub (signal_data ''AAPL'' ''BUY'' ''momentum'' 0 1700000000))))
          (store0 [Drop])) = Some (REDIS_REPLY_STATUS s))"
    by (simp_all add: fixture_defs store_eval)
  then show ?thesis
    using conn
      storeTradingSignal_true_iff_status [OF conn, of redisCommand dump_stub 1700000000
        "''AAPL''" "''BUY''" "''momentum''" 0 "store0 []"]
      storeTradingSignal_true_iff_status [OF conn, of redisCommand dump_stub 1700000000
        "''AAPL''" "''BUY''" "''momentum''" 0 "store0 [Drop]"]
    by simp
qed

text \<open>
  C8. On a connected client \<^verbatim>\<open>publishMarketUpdate\<close> returns true exactly when the reply
  is an integer reply; the number is not looked at, so the count 0 of a channel without
  subscribers gives true as well.
\<close>

theorem publishMarketUpdate_true_iff_integer:
  assumes "connected c"
  shows "fst (publishMarketUpdate rc dump c channel data w) =
       (\<exists>n. fst (rc (context_ptr c) (PUBLISH (c_str channel) (c_str (dump data))) w)
              = Some (REDIS_REPLY_INTEGER n)) \<and>
     (fst (rc (context_ptr c) (PUBLISH (c_str channel) (c_str (dump data))) w)
        = Some (REDIS_REPLY_INTEGER 0) \<longrightarrow>
      fst (publishMarketUpdate rc dump c channel data w) = True)"
  using assms
  by (auto simp: publishMarketUpdate_def is_integer_def Let_def case_prod_beta
           split: option.splits redisReply.splits)

theorem publishMarketUpdate_true_iff_integer_witness:
  "connected client0 \<and> subscribers (store0 []) (c_str ''ch'') = 0 \<and>
   fst (redisCommand (context_ptr client0) (PUBLISH (c_str ''ch'') (c_str (dump_stub JNull)))
          (store0 [])) = Some (REDIS_REPLY_INTEGER 0) \<and>
   fst (publishMarketUpdate redisCommand dump_stub client0 ''ch'' JNull (store0 [])) = True"
proof -
  have conn: "connected client0"
    by (simp add: client0_def)
  have none: "subscribers (store0 []) (c_str ''ch'') = 0"
    by (simp add: fixture_defs)
  have zero: "fst (redisCommand (context_ptr client0)
      (PUBLISH (c_str ''ch'') (c_str (dump_stub JNull))) (store0 [])) = Some (REDIS_REPLY_INTEGER 0)"
    by (simp add: fixture_defs store_eval)
  from publishMarketUpdate_true_iff_integer
    [OF conn, of redisCommand dump_stub "''ch''" JNull "store0 []"] conn none zero
  show ?thesis
    by blast
qed

subsection \<open>Commands issued\<close>

text \<open>
  C4. On a disconnected client \<^verbatim>\<open>storeStockData\<close>, \<^verbatim>\<open>storeTradingSignal\<close>,
  \<^verbatim>\<open>getStockData\<close>, \<^verbatim>\<open>publishMarketUpdate\<close> and \<^verbatim>\<open>getAvailableSymbols\<close> return false,
  false, the empty string, false and the empty sequence, and give no command to the
  transport: the world is returned as it was, and the log of a recording transport is
  returned as it was.
\<close>

theorem disconnected_returns_sentinel:
  assumes "\<not> connected c"
  shows "storeStockData rc dump c symbol data w = (False, c, w) \<and>
     storeTradingSignal rc dump now c symbol signal reason confidence w = (False, c, w) \<and>
     getStockData rc c symbol w = ([], c, w) \<and>
     publishMarketUpdate rc dump c channel data w = (False, c, w) \<and>
     getAvailableSymbols rc c w = (Some [], c, w) \<and>
     storeStockData (spy rc) dump c symbol data (log, w) = (False, c, (log, w)) \<and>
     storeTradingSignal (spy rc) dump now c symbol signal reason confidence (log, w)
       = (False, c, (log, w)) \<and>
     getStockData (spy rc) c symbol (log, w) = ([], c, (log, w)) \<and>
     publishMarketUpdate (spy rc) dump c channel data (log, w) = (False, c, (log, w)) \<and>
     getAvailableSymbols (spy rc) c (log, w) = (Some [], c, (log, w))"
  using assms
  by (simp add: storeStockData_def storeTradingSignal_def getStockData_def
        publishMarketUpdate_def getAvailableSymbols_def)

theorem disconnected_returns_sentinel_witness:
  "\<not> connected offline \<and>
   storeStockData (spy redisCommand) dump_stub offline ''AAPL'' JNull ([], store0 [])
     = (False, offline, ([], store0 [])) \<and>
   storeTradingSignal (spy redisCommand) dump_stub 1700000000 offline
       ''AAPL'' ''BUY'' ''momentum'' 0 ([], store0 [])
     = (False, offline, ([], store0 [])) \<and>
   getStockData (spy redisCommand) offline ''AAPL'' ([], store0 [])
     = ([], offline, ([], store0 [])) \<and>
   publishMarketUpdate (spy redisCommand) dump_stub offline ''ch'' JNull ([], store0 [])
     = (False, offline, ([], store0 [])) \<and>
   getAvailableSymbols (spy redisCommand) offline ([], store0 [])
     = (Some [], offline, ([], store0 []))"
proof -
  have off: "\<not> connected offline"
    by (simp add: offline_def)
  from disconnected_returns_sentinel
    [where c = offline and rc = redisCommand and dump = dump_stub and symbol = "''AAPL''"
       and data = JNull and w = "store0 []" and now = 1700000000 and signal = "''BUY''"
       and reason = "''momentum''" and confidence = 0 and channel = "''ch''" and log = "[]",
     OF off]
    off
  show ?thesis
    by simp
qed

text \<open>
  C3. On a connected client, when \<^verbatim>\<open>storeStockData\<close> returns false (the reply to the
  SET is null, or is not the status "OK"), the SET is the only command it has given to
  the transport: no LPUSH and no LTRIM follow. On the store, the history sequence of
  every symbol is then as it was before the call.
\<close>

theorem storeStockData_unacknowledged_no_history:
  assumes "connected c"
    and "\<not> fst (storeStockData rc dump c symbol data w)"
  shows "snd (snd (storeStockData (spy rc) dump c symbol data (log, w))) =
       (log @ [SET (c_str (''stock:current:'' @ symbol)) (c_str (dump data))],
        snd (rc (context_ptr c)
               (SET (c_str (''stock:current:'' @ symbol)) (c_str (dump data))) w)) \<and>
     (\<not> fst (storeStockData redisCommand dump c symbol data w0) \<longrightarrow>
        history (snd (snd (storeStockData redisCommand dump c symbol data w0))) symbol'
          = history w0 symbol')"
proof -
  let ?set = "SET (c_str (''stock:current:'' @ symbol)) (c_str (dump data))"
  have "fst (rc (context_ptr c) ?set w) \<noteq> Some (REDIS_REPLY_STATUS ''OK'')"
    using assms by (simp add: storeStockData_result)
  then have "fst (spy rc (context_ptr c) ?set (log, w)) \<noteq> Some (REDIS_REPLY_STATUS ''OK'')"
    by (simp add: fst_spy)
  from storeStockData_refused [where rc = "spy rc" and dump = dump, OF assms(1) this]
  have issued: "snd (snd (storeStockData (spy rc) dump c symbol data (log, w))) =
       (log @ [?set], snd (rc (context_ptr c) ?set w))"
    by (simp add: snd_spy)
  have untouched: "history (snd (snd (storeStockData redisCommand dump c symbol data w0))) symbol'
          = history w0 symbol'"
    if failed: "\<not> fst (storeStockData redisCommand dump c symbol data w0)"
  proof -
    have "fst (redisCommand (context_ptr c) ?set w0) \<noteq> Some (REDIS_REPLY_STATUS ''OK'')"
      using assms(1) failed by (simp add: storeStockData_result)
    from storeStockData_refused [where rc = redisCommand and dump = dump, OF assms(1) this]
    have "snd (snd (storeStockData redisCommand dump c symbol data w0)) =
        snd (redisCommand (context_ptr c) ?set w0)"
      by simp
    moreover have "\<not> writes_to ?set (c_str (''stock:history:'' @ symbol'))"
      by (simp add: c_str_simps)
    ultimately show ?thesis
      by (simp add: history_def lrange_all_def redisCommand_frame)
  qed
  show ?thesis
    using issued untouched by blast
qed

theorem storeStockData_unacknowledged_no_history_witness:
  "connected client0 \<and>
   \<not> fst (storeStockData redisCommand dump_stub client0 ''AAPL'' JNull (store0 [LostReply])) \<and>
   snd (snd (storeStockData (spy redisCommand) dump_stub client0 ''AAPL'' JNull
              ([], store0 [LostReply]))) =
     ([SET ''stock:current:AAPL'' ''null''],
      \<lparr>keyspace = [(''stock:current:AAPL'', RString ''null'')],
       subscribers = no_subscribers, plan = []\<rparr>) \<and>
   history (snd (snd (storeStockData redisCommand dump_stub client0 ''AAPL'' JNull
              (store0 [LostReply])))) ''AAPL'' = []"
proof -
  have conn: "connected client0"
    by (simp add: client0_def)
  have failed:
    "\<not> fst (storeStockData redisCommand dump_stub client0 ''AAPL'' JNull (store0 [LostReply]))"
    by (simp add: storeStockData_result conn) (simp add: fixture_defs store_eval)
  have world: "snd (redisCommand (context_ptr client0)
      (SET (c_str (''stock:current:'' @ ''AAPL'')) (c_str (dump_stub JNull))) (store0 [LostReply]))
    = \<lparr>keyspace = [(''stock:current:AAPL'', RString ''null'')],
       subscribers = no_subscribers, plan = []\<rparr>"
    by (simp add: fixture_defs store_eval)
  have before: "history (store0 [LostReply]) ''AAPL'' = []"
    by (simp add: fixture_defs store_eval)
  from storeStockData_unacknowledged_no_history
    [where c = client0 and rc = redisCommand and dump = dump_stub and symbol = "''AAPL''"
       and data = JNull and w = "store0 [LostReply]" and log = "[]"
       and ?w0.0 = "store0 [LostReply]" and symbol' = "''AAPL''", OF conn failed]
    conn failed world before
  show ?thesis
    by (simp add: c_str_simps dump_stub_def)
qed

subsection \<open>Connection state\<close>

text \<open>
  C10. \<^verbatim>\<open>storeStockData\<close>, \<^verbatim>\<open>storeTradingSignal\<close>, \<^verbatim>\<open>getStockData\<close>,
  \<^verbatim>\<open>publishMarketUpdate\<close> and \<^verbatim>\<open>getAvailableSymbols\<close> return the client's fields as
  they were, the connected flag and the context pointer among them, whatever the
  transport answers and whether the client is connected or not.
\<close>

theorem operations_keep_connection_state:
  "fst (snd (storeStockData rc dump c symbol data w)) = c \<and>
   fst (snd (storeTradingSignal rc dump now c symbol signal reason confidence w)) = c \<and>
   fst (snd (getStockData rc c symbol w)) = c \<and>
   fst (snd (publishMarketUpdate rc dump c channel data w)) = c \<and>
   fst (snd (getAvailableSymbols rc c w)) = c"
  by (auto simp: storeStockData_def storeTradingSignal_def getStockData_def
        publishMarketUpdate_def getAvailableSymbols_def Let_def case_prod_beta
      split: option.splits redisReply.splits)

theorem operations_keep_connection_state_witness:
  "fst (snd (storeStockData redisCommand dump_stub client0 ''AAPL'' JNull (store0 [Drop])))
     = client0 \<and>
   connected (fst (snd (storeStockData redisCommand dump_stub client0 ''AAPL'' JNull
     (store0 [Drop])))) \<and>
   connected (fst (snd (getStockData redisCommand client0 ''AAPL'' (store0 [Drop]))))"
  using operations_keep_connection_state
    [of redisCommand dump_stub client0 "''AAPL''" JNull "store0 [Drop]"]
  by (simp add: client0_def)

subsection \<open>The history sequence\<close>

text \<open>
  C1, as stated, fails: a \<^verbatim>\<open>storeStockData\<close> call returns true as soon as the SET is
  acknowledged, and the LPUSH and the LTRIM that follow are best effort. With the LPUSH
  lost the call returns true and prepends nothing; with the LTRIM lost after 1000
  entries the history holds 1001 entries.
\<close>

theorem storeStockData_history_counterexample:
  "fst (storeStockData redisCommand dump_stub client0 ''AAPL'' JNull
          (store0 [Deliver, Drop, Drop])) = True \<and>
   history (snd (snd (storeStockData redisCommand dump_stub client0 ''AAPL'' JNull
          (store0 [Deliver, Drop, Drop])))) ''AAPL'' = [] \<and>
   fst (storeStockData redisCommand dump_stub client0 ''AAPL'' JNull
          ((store0 [Deliver, Deliver, Drop])
             \<lparr>keyspace := [(''stock:history:AAPL'', RList (replicate 1000 ''null''))]\<rparr>)) = True \<and>
   length (history (snd (snd (storeStockData redisCommand dump_stub client0 ''AAPL'' JNull
          ((store0 [Deliver, Deliver, Drop])
             \<lparr>keyspace := [(''stock:history:AAPL'', RList (replicate 1000 ''null''))]\<rparr>))))
      ''AAPL'') = 1001"
  by (simp add: fixture_defs store_eval storeStockData_def status_is_OK_def Let_def)

text \<open>
  C1, amended. For every symbol and every sequence of quote writes, each
  \<^verbatim>\<open>storeStockData\<close> call for the symbol that returns true and whose LPUSH and LTRIM the
  store executes (the history key of the symbol not holding a string) prepends its
  serialized blob to the history sequence of the symbol and then truncates it to the
  newest 1000 entries. So, when this holds of every such call of the sequence, whatever
  happens to the other calls and commands, the history of the symbol afterwards is the
  blobs of its calls that returned true, newest first, followed by the earlier history,
  cut at 1000 entries (and the earlier history when no such call returned true): a
  history of at most 1000 entries never exceeds 1000, and after 1000 or more such
  writes it holds exactly 1000 entries, the 1000 blobs written last, newest first.
\<close>

theorem history_capped_after_executed_writes:
  fixes c :: "'h RedisClient" and w :: redis
  assumes "followups_executed dump c symbol writes w"
    and "\<not> holds_string w (c_str (''stock:history:'' @ symbol))"
  shows "history (snd (snd (storeQuotes redisCommand dump c writes w))) symbol =
       (if quote_blobs dump symbol
             (acknowledged (fst (storeQuotes redisCommand dump c writes w)) writes) = []
        then history w symbol
        else take 1000
          (rev (quote_blobs dump symbol
             (acknowledged (fst (storeQuotes redisCommand dump c writes w)) writes))
           @ history w symbol)) \<and>
     (length (history w symbol) \<le> 1000 \<longrightarrow>
        length (history (snd (snd (storeQuotes redisCommand dump c writes w))) symbol) \<le> 1000) \<and>
     (1000 \<le> length (quote_blobs dump symbol
          (acknowledged (fst (storeQuotes redisCommand dump c writes w)) writes)) \<longrightarrow>
        length (history (snd (snd (storeQuotes redisCommand dump c writes w))) symbol) = 1000 \<and>
        history (snd (snd (storeQuotes redisCommand dump c writes w))) symbol =
          take 1000 (rev (quote_blobs dump symbol
            (acknowledged (fst (storeQuotes redisCommand dump c writes w)) writes))))"
proof -
  define h' where "h' = history (snd (snd (storeQuotes redisCommand dump c writes w))) symbol"
  define qs where "qs = quote_blobs dump symbol
      (acknowledged (fst (storeQuotes redisCommand dump c writes w)) writes)"
  from history_storeQuotes [OF assms]
  have eq: "h' = (if qs = [] then history w symbol else take 1000 (rev qs @ history w symbol))"
    by (simp only: h'_def qs_def)
  have "length (take 1000 (rev qs @ history w symbol)) \<le> 1000"
    by (simp del: take_append)
  then have bound: "length (history w symbol) \<le> 1000 \<longrightarrow> length h' \<le> 1000"
    by (simp only: eq split: if_split) blast
  have full: "1000 \<le> length qs \<longrightarrow> length h' = 1000 \<and> h' = take 1000 (rev qs)"
    by (auto simp: eq)
  have "h' = (if qs = [] then history w symbol else take 1000 (rev qs @ history w symbol)) \<and>
     (length (history w symbol) \<le> 1000 \<longrightarrow> length h' \<le> 1000) \<and>
     (1000 \<le> length qs \<longrightarrow> length h' = 1000 \<and> h' = take 1000 (rev qs))"
    using eq bound full by blast
  then show ?thesis
    unfolding h'_def qs_def .
qed

text \<open>
  The theorem at a history of 999 entries and four writes: two for the symbol that
  return true, one for it whose SET is refused, and one for another symbol whose LPUSH
  is refused; a command past the last write is lost. The oldest entry is cut and the
  two blobs stand in front, the later one first.
\<close>

theorem history_capped_after_executed_writes_witness:
  "followups_executed dump_literal client0 ''AAPL''
     [(''AAPL'', JBoolean True), (''AAPL'', JNull), (''TSLA'', JNull), (''AAPL'', JBoolean False)]
     ((store0 [Deliver, Deliver, Deliver, Refuse ''OOM'', Deliver, Refuse ''OOM'', Deliver,
               Deliver, Deliver, Deliver, Drop])
        \<lparr>keyspace := [(''stock:history:AAPL'', RList (replicate 999 ''old''))]\<rparr>) \<and>
   \<not> holds_string
     ((store0 [Deliver, Deliver, Deliver, Refuse ''OOM'', Deliver, Refuse ''OOM'', Deliver,
               Deliver, Deliver, Deliver, Drop])
        \<lparr>keyspace := [(''stock:history:AAPL'', RList (replicate 999 ''old''))]\<rparr>)
     (c_str (''stock:history:'' @ ''AAPL'')) \<and>
   fst (storeQuotes redisCommand dump_literal client0
     [(''AAPL'', JBoolean True), (''AAPL'', JNull), (''TSLA'', JNull), (''AAPL'', JBoolean False)]
     ((store0 [Deliver, Deliver, Deliver, Refuse ''OOM'', Deliver, Refuse ''OOM'', Deliver,
               Deliver, Deliver, Deliver, Drop])
        \<lparr>keyspace := [(''stock:history:AAPL'', RList (replicate 999 ''old''))]\<rparr>))
     = [True, False, True, True] \<and>
   history (snd (snd (storeQuotes redisCommand dump_literal client0
     [(''AAPL'', JBoolean True), (''AAPL'', JNull), (''TSLA'', JNull), (''AAPL'', JBoolean False)]
     ((store0 [Deliver, Deliver, Deliver, Refuse ''OOM'', Deliver, Refuse ''OOM'', Deliver,
               Deliver, Deliver, Deliver, Drop])
        \<lparr>keyspace := [(''stock:history:AAPL'', RList (replicate 999 ''old''))]\<rparr>)))) ''AAPL''
     = ''false'' # ''true'' # replicate 998 ''old''"
proof -
  define writes where "writes =
    [(''AAPL'', JBoolean True), (''AAPL'', JNull), (''TSLA'', JNull), (''AAPL'', JBoolean False)]"
  define w0 where "w0 =
    (store0 [Deliver, Deliver, Deliver, Refuse ''OOM'', Deliver, Refuse ''OOM'', Deliver,
             Deliver, Deliver, Deliver, Drop])
      \<lparr>keyspace := [(''stock:history:AAPL'', RList (replicate 999 ''old''))]\<rparr>"
  have followups: "followups_executed dump_literal client0 ''AAPL'' writes w0"
    by (simp add: writes_def w0_def fixture_defs store_eval dump_literal_def
          storeStockData_def status_is_OK_def ltrim_def Let_def)
  have nostring: "\<not> holds_string w0 (c_str (''stock:history:'' @ ''AAPL''))"
    by (simp add: w0_def fixture_defs store_eval)
  have oks: "fst (storeQuotes redisCommand dump_literal client0 writes w0)
      = [True, False, True, True]"
    by (simp add: writes_def w0_def fixture_defs store_eval dump_literal_def
          storeStockData_def status_is_OK_def ltrim_def Let_def)
  have blobs: "quote_blobs dump_literal ''AAPL'' (acknowledged [True, False, True, True] writes)
      = [''true'', ''false'']"
    by (simp add: writes_def acknowledged_def quote_blobs_def dump_literal_def c_str_def)
  have before: "history w0 ''AAPL'' = replicate 999 ''old''"
    by (simp add: w0_def fixture_defs store_eval)
  from history_capped_after_executed_writes [OF followups nostring]
  have "history (snd (snd (storeQuotes redisCommand dump_literal client0 writes w0))) ''AAPL''
      = ''false'' # ''true'' # replicate 998 ''old''"
    by (simp add: oks blobs before)
  then show ?thesis
    using followups nostring oks by (simp only: writes_def w0_def) blast
qed

subsection \<open>The signal queue\<close>




subsection \<open>Reading a quote back\<close>

text \<open>
  C9, as stated, fails: \<^verbatim>\<open>getStockData\<close> returns the empty string when its GET is not
  answered, also right after a quote write that returned true, and the empty string
  does not deserialize to the document written.
\<close>

theorem getStockData_roundtrip_counterexample:
  "fst (storeStockData redisCommand dump_stub client0 ''AAPL'' JNull
          (store0 [Deliver, Deliver, Deliver, Drop])) = True \<and>
   fst (getStockData redisCommand client0 ''AAPL''
          (snd (snd (storeStockData redisCommand dump_stub client0 ''AAPL'' JNull
             (store0 [Deliver, Deliver, Deliver, Drop]))))) = [] \<and>
   parse_stub [] \<noteq> Some JNull"
  by (simp add: fixture_defs store_eval storeStockData_def getStockData_def status_is_OK_def
        ltrim_def Let_def)

text \<open>
  C9, amended. For every symbol and every document D, after a \<^verbatim>\<open>storeStockData\<close> call
  for the symbol and D that returns true on a connected client, a \<^verbatim>\<open>getStockData\<close> call
  for the symbol whose GET the store answers, with no write to the key in between,
  returns the very blob the write has serialized from D; so it deserializes to D
  wherever the parser of the JSON library inverts the serialization of D.
\<close>

theorem getStockData_after_storeStockData:
  fixes c :: "'h RedisClient" and w :: redis
  assumes "connected c"
    and "fst (storeStockData redisCommand dump c symbol data w)"
    and "nth_fault (snd (snd (storeStockData redisCommand dump c symbol data w))) 0 = Deliver"
  shows "fst (getStockData redisCommand c symbol
            (snd (snd (storeStockData redisCommand dump c symbol data w)))) = c_str (dump data) \<and>
     (parse (c_str (dump data)) = Some data \<longrightarrow>
        parse (fst (getStockData redisCommand c symbol
            (snd (snd (storeStockData redisCommand dump c symbol data w))))) = Some data)"
proof -
  let ?b = "c_str (dump data)"
  let ?key = "c_str (''stock:current:'' @ symbol)" and ?hk = "c_str (''stock:history:'' @ symbol)"
  let ?r1 = "redisCommand (context_ptr c) (SET ?key ?b) w"
  let ?r2 = "redisCommand (context_ptr c) (LPUSH ?hk ?b) (snd ?r1)"
  let ?r3 = "redisCommand (context_ptr c) (LTRIM ?hk 0 999) (snd ?r2)"
  let ?w' = "snd (snd (storeStockData redisCommand dump c symbol data w))"
  have reply1: "fst ?r1 = Some (REDIS_REPLY_STATUS ''OK'')"
    using assms(1,2) by (simp add: storeStockData_result)
  from redisCommand_status_delivered [OF reply1]
  obtain h where h: "context_ptr c = Some h" and f1: "nth_fault w 0 = Deliver"
    by auto
  have run: "?w' = snd ?r3"
    using storeStockData_acknowledged [where rc = redisCommand and dump = dump,
      OF assms(1) reply1] by simp
  have neq: "?key \<noteq> ?hk"
    by (simp add: c_str_simps)
  have "kv (snd ?r1) ?key = Some (RString ?b)"
    using f1 by (simp add: h kv_redisCommand kv_exec_SET)
  moreover have "kv (snd ?r2) ?key = kv (snd ?r1) ?key"
    using neq by (simp add: redisCommand_frame)
  moreover have "kv (snd ?r3) ?key = kv (snd ?r2) ?key"
    using neq by (simp add: redisCommand_frame)
  ultimately have stored: "kv ?w' ?key = Some (RString ?b)"
    by (simp add: run)
  have "fst (redisCommand (context_ptr c) (GET ?key) ?w') = Some (REDIS_REPLY_STRING ?b)"
    using assms(3) stored by (simp add: h fst_redisCommand exec_GET_string c_str_idem)
  then have "fst (getStockData redisCommand c symbol ?w') = ?b"
    using assms(1) by (simp add: getStockData_def Let_def case_prod_beta)
  then show ?thesis
    by simp
qed

theorem getStockData_after_storeStockData_witness:
  "connected client0 \<and>
   fst (storeStockData redisCommand dump_stub client0 ''AAPL'' JNull (store0 [])) \<and>
   nth_fault (snd (snd (storeStockData redisCommand dump_stub client0 ''AAPL'' JNull
      (store0 []))))  0 = Deliver \<and>
   fst (getStockData redisCommand client0 ''AAPL''
          (snd (snd (storeStockData redisCommand dump_stub client0 ''AAPL'' JNull (store0 [])))))
     = ''null'' \<and>
   parse_stub (fst (getStockData redisCommand client0 ''AAPL''
          (snd (snd (storeStockData redisCommand dump_stub client0 ''AAPL'' JNull (store0 []))))))
     = Some JNull"
proof -
  have conn: "connected client0"
    by (simp add: client0_def)
  have ok: "fst (storeStockData redisCommand dump_stub client0 ''AAPL'' JNull (store0 []))"
    by (simp add: storeStockData_result conn) (simp add: fixture_defs store_eval)
  have answered: "nth_fault (snd (snd (storeStockData redisCommand dump_stub client0 ''AAPL'' JNull
      (store0 [])))) 0 = Deliver"
    by (simp add: fixture_defs store_eval storeStockData_def status_is_OK_def ltrim_def Let_def)
  from getStockData_after_storeStockData [OF conn ok answered, of parse_stub]
  have "fst (getStockData redisCommand client0 ''AAPL''
          (snd (snd (storeStockData redisCommand dump_stub client0 ''AAPL'' JNull (store0 [])))))
     = ''null''"
    and "parse_stub (fst (getStockData redisCommand client0 ''AAPL''
          (snd (snd (storeStockData redisCommand dump_stub client0 ''AAPL'' JNull (store0 []))))))
     = Some JNull"
    by (simp_all add: dump_stub_def parse_stub_def c_str_def)
  then show ?thesis
    using conn ok answered by simp
qed

end
